theory Spec2Isabelle
  imports Complex_Main "HOL-Library.AList"
begin

section \<open>AQI categories\<close>

text \<open>
  The AQI values that reach the category functions are the integers of the EPA scale;
  a JavaScript number holding one is modelled as \<open>int\<close>. Every category function is
  a chain of \<open>if (aqi <= bound) return label\<close> statements, kept in the source's order.
\<close>

text \<open>\<open>getAQIStatus\<close> of \<open>frontend/src/utils/aqiUtils.js\<close>.\<close>

definition getAQIStatus :: "int \<Rightarrow> string" where
  "getAQIStatus aqi =
     (if aqi \<le> 50 then ''Good''
      else if aqi \<le> 100 then ''Moderate''
      else if aqi \<le> 150 then ''Unhealthy for Sensitive Groups''
      else if aqi \<le> 200 then ''Unhealthy''
      else if aqi \<le> 300 then ''Very Unhealthy''
      else ''Hazardous'')"

text \<open>
  \<open>AQIDataService.getAQICategory\<close>: the same text in both versions of the class, the one
  with \<open>generateDemoAQI\<close> and the wrapper around the unified service.
\<close>

definition AQIDataService_getAQICategory :: "int \<Rightarrow> string" where
  "AQIDataService_getAQICategory aqi =
     (if aqi \<le> 50 then ''Good''
      else if aqi \<le> 100 then ''Moderate''
      else if aqi \<le> 150 then ''Unhealthy for Sensitive Groups''
      else if aqi \<le> 200 then ''Unhealthy''
      else if aqi \<le> 300 then ''Very Unhealthy''
      else ''Hazardous'')"

text \<open>\<open>UnifiedAQIService.getAQICategory\<close>.\<close>

definition UnifiedAQIService_getAQICategory :: "int \<Rightarrow> string" where
  "UnifiedAQIService_getAQICategory aqi =
     (if aqi \<le> 50 then ''Good''
      else if aqi \<le> 100 then ''Moderate''
      else if aqi \<le> 150 then ''Unhealthy for Sensitive Groups''
      else if aqi \<le> 200 then ''Unhealthy''
      else if aqi \<le> 300 then ''Very Unhealthy''
      else ''Hazardous'')"

text \<open>\<open>ForecastService.getAQICategory\<close>.\<close>

definition ForecastService_getAQICategory :: "int \<Rightarrow> string" where
  "ForecastService_getAQICategory aqi =
     (if aqi \<le> 50 then ''Good''
      else if aqi \<le> 100 then ''Moderate''
      else if aqi \<le> 150 then ''Unhealthy for Sensitive Groups''
      else if aqi \<le> 200 then ''Unhealthy''
      else if aqi \<le> 300 then ''Very Unhealthy''
      else ''Hazardous'')"

section \<open>The alert set-up form\<close>

text \<open>
  The state of \<open>AlertSetupModal\<close> (\<open>alertData\<close>), with the fields that the alert rule is
  built from. The notification channels, the user details and the location list are
  left out: no operation below reads or writes them.
\<close>

record quietHours =
  enabled :: bool
  start :: string
  end_time :: string

record alertData =
  threshold_value :: int
  threshold_type :: string
  thresholdCategory :: string
  pollutants :: "string list"
  frequency :: string
  healthConditions :: "string list"
  quietHours :: quietHours

text \<open>The argument of \<open>useState\<close>: the form's initial state.\<close>

definition initialAlertData :: alertData where
  "initialAlertData =
     \<lparr>threshold_value = 100, threshold_type = ''category'', thresholdCategory = ''moderate'',
      pollutants = [''all''], frequency = ''every_time'', healthConditions = [],
      quietHours = \<lparr>enabled = True, start = ''22:00'', end_time = ''07:00''\<rparr>\<rparr>"

text \<open>
  \<open>handlePollutantToggle\<close>: both branches call \<open>setAlertData\<close> with a function of the
  previous state, so the handler is a function from state to state.
\<close>

definition handlePollutantToggle :: "string \<Rightarrow> alertData \<Rightarrow> alertData" where
  "handlePollutantToggle pollutant prev =
     (if pollutant = ''all'' then prev\<lparr>pollutants := [''all'']\<rparr>
      else
        let newPollutants =
              (if ''all'' \<in> set (pollutants prev) then [pollutant]
               else if pollutant \<in> set (pollutants prev)
                 then filter (\<lambda>p. p \<noteq> pollutant) (pollutants prev)
                 else filter (\<lambda>p. p \<noteq> ''all'') (pollutants prev) @ [pollutant])
        in prev\<lparr>pollutants := (if length newPollutants = 0 then [''all''] else newPollutants)\<rparr>)"

text \<open>The pollutant filter is well formed: not empty, and \<open>all\<close> only on its own.\<close>

definition pollutant_filter_ok :: "string list \<Rightarrow> bool" where
  "pollutant_filter_ok ps = (ps = [''all''] \<or> (ps \<noteq> [] \<and> ''all'' \<notin> set ps))"

section \<open>The demo AQI of AQIDataService\<close>

text \<open>
  A JavaScript object with string keys and integer values is an association list in
  insertion order: \<open>Object.keys\<close> and \<open>Object.values\<close> enumerate in that order, and
  \<open>obj[key]\<close> is \<open>map_of obj key\<close>.
\<close>

type_synonym js_object = "(string \<times> int) list"

definition Object_keys :: "js_object \<Rightarrow> string list" where
  "Object_keys obj = map fst obj"

definition Object_values :: "js_object \<Rightarrow> int list" where
  "Object_values obj = map snd obj"

text \<open>\<open>Math.max(...xs)\<close>; with no argument it is \<open>-Infinity\<close>, here \<open>None\<close>.\<close>

fun Math_max :: "int list \<Rightarrow> int option" where
  "Math_max [] = None"
| "Math_max (x # xs) = (case Math_max xs of None \<Rightarrow> Some x | Some m \<Rightarrow> Some (max x m))"

text \<open>\<open>String.prototype.toUpperCase\<close> on ASCII text.\<close>

definition toUpperCase_char :: "char \<Rightarrow> char" where
  "toUpperCase_char c =
     (case map_of (zip ''abcdefghijklmnopqrstuvwxyz'' ''ABCDEFGHIJKLMNOPQRSTUVWXYZ'') c of
        Some u \<Rightarrow> u
      | None \<Rightarrow> c)"

definition toUpperCase :: "string \<Rightarrow> string" where
  "toUpperCase s = map toUpperCase_char s"

text \<open>
  \<open>generateDemoAQI\<close> calls \<open>Math.random\<close> seven times. Each
  \<open>Math.floor(Math.random() * n)\<close> is an integer from 0 to \<open>n - 1\<close>; the seven results are
  the fields of \<open>demo_draws\<close>, and \<open>valid_draws\<close> gives their ranges.
\<close>

record demo_draws =
  r_base :: int
  r_pm25 :: int
  r_pm10 :: int
  r_o3 :: int
  r_no2 :: int
  r_so2 :: int
  r_co :: int

definition valid_draws :: "demo_draws \<Rightarrow> bool" where
  "valid_draws d =
     (0 \<le> r_base d \<and> r_base d < 10 \<and> 0 \<le> r_pm25 d \<and> r_pm25 d < 8 \<and>
      0 \<le> r_pm10 d \<and> r_pm10 d < 6 \<and> 0 \<le> r_o3 d \<and> r_o3 d < 15 \<and>
      0 \<le> r_no2 d \<and> r_no2 d < 8 \<and> 0 \<le> r_so2 d \<and> r_so2 d < 10 \<and>
      0 \<le> r_co d \<and> r_co d < 12)"

text \<open>The object literal \<open>pollutants\<close> of \<open>generateDemoAQI\<close>.\<close>

definition demo_pollutants :: "demo_draws \<Rightarrow> js_object" where
  "demo_pollutants d =
     (let baseAQI = 35 + r_base d in
      [(''pm25'', max 15 (baseAQI + r_pm25 d - 4)),
       (''pm10'', max 20 (baseAQI + r_pm10 d - 3)),
       (''o3'', max 8 (r_o3 d + 8)),
       (''no2'', max 10 (baseAQI + r_no2 d - 4)),
       (''so2'', max 5 (r_so2 d + 5)),
       (''co'', max 8 (r_co d + 8))])"

text \<open>
  The returned object, without the location, the messages and the time stamp.
  \<open>dominant_pollutant\<close> is \<open>None\<close> where \<open>dominantPollutant?.toUpperCase()\<close> is undefined.
\<close>

record demo_aqi =
  current_aqi :: int
  aqi_category :: string
  dominant_pollutant :: "string option"
  demo_pollutants_of :: js_object

text \<open>
  The rest of \<open>generateDemoAQI\<close>, from the object \<open>pollutants\<close> on: the maximum of the
  values, its category, and the first key whose value is the maximum.
\<close>

definition generateDemoAQI_from :: "js_object \<Rightarrow> demo_aqi option" where
  "generateDemoAQI_from pollutants_obj =
     (case Math_max (Object_values pollutants_obj) of
        None \<Rightarrow> None
      | Some currentAQI \<Rightarrow>
          let category = AQIDataService_getAQICategory currentAQI;
              dominantPollutant =
                find (\<lambda>key. map_of pollutants_obj key = Some currentAQI)
                  (Object_keys pollutants_obj)
          in Some \<lparr>current_aqi = currentAQI, aqi_category = category,
                   dominant_pollutant = map_option toUpperCase dominantPollutant,
                   demo_pollutants_of = pollutants_obj\<rparr>)"

definition generateDemoAQI :: "demo_draws \<Rightarrow> demo_aqi option" where
  "generateDemoAQI d = generateDemoAQI_from (demo_pollutants d)"

text \<open>
  The dominant pollutant in the specification's words: a pollutant achieving the maximum,
  ties broken by the EPA priority order O3, PM2.5, PM10, CO, SO2, NO2.
\<close>

definition epa_priority :: "string list" where
  "epa_priority = [''o3'', ''pm25'', ''pm10'', ''co'', ''so2'', ''no2'']"

definition spec_dominant_pollutant :: "js_object \<Rightarrow> string option" where
  "spec_dominant_pollutant sub_indices =
     find (\<lambda>key. map_of sub_indices key = Math_max (Object_values sub_indices)) epa_priority"

text \<open>Draws for which PM2.5, PM10 and NO2 all come out as 40, the maximum.\<close>

definition tied_draws :: demo_draws where
  "tied_draws =
     \<lparr>r_base = 5, r_pm25 = 4, r_pm10 = 3, r_o3 = 0, r_no2 = 4, r_so2 = 0, r_co = 0\<rparr>"

section \<open>The unified AQI service\<close>

text \<open>The outcome of \<open>fetch\<close> followed by \<open>response.json()\<close>: the promise rejects (or
  the body is not JSON), or it resolves to the parsed object.\<close>

datatype 'a fetched = Rejected | Resolved 'a

text \<open>The fields that the service reads from the answer of \<open>/api/why-today/location\<close>.
  A field that may be absent is an option.\<close>

record why_today_data =
  city_name :: "string option"
  aqi_value :: int
  primary_pollutant :: string
  health_context :: string
  confidence_score :: "real option"

record why_today_response =
  wt_success :: bool
  wt_data :: "why_today_data option"
  wt_location_city :: "string option"

text \<open>\<open>x || d\<close>: an absent value, the empty string and the number 0 are falsy.\<close>

definition or_string :: "string option \<Rightarrow> string \<Rightarrow> string" where
  "or_string x d = (case x of None \<Rightarrow> d | Some s \<Rightarrow> if s = [] then d else s)"

definition or_number :: "real option \<Rightarrow> real \<Rightarrow> real" where
  "or_number x d = (case x of None \<Rightarrow> d | Some v \<Rightarrow> if v = 0 then d else v)"

text \<open>The object that the service returns, without the time stamps, the summary sentence
  and the list of display factors. \<open>data_sources\<close> and \<open>performance.mode\<close> are absent (\<open>None\<close>) where the source's
  literal has no such member, and \<open>raw\<close> is \<open>None\<close> for the empty object.\<close>

record aqi_part =
  aqi_part_value :: int
  category :: string
  aqi_dominant_pollutant :: string
  health_message :: string
  confidence :: real
  data_sources :: "string list option"

record whyToday_part =
  whyToday_city :: string
  whyToday_aqi :: int
  aqiStatus :: string
  aqiColor :: string
  primaryPollutant :: string
  healthAdvice :: string
  whyToday_confidence :: real

record unifiedData =
  location_city :: string
  latitude :: real
  longitude :: real
  unified_aqi :: aqi_part
  unified_whyToday :: whyToday_part
  raw :: "why_today_data option"
  performance_mode :: "string option"

text \<open>\<open>UnifiedAQIService.getAQIStatus\<close>: the pair of \<open>status\<close> and \<open>color\<close>.\<close>

definition UnifiedAQIService_getAQIStatus :: "int \<Rightarrow> string \<times> string" where
  "UnifiedAQIService_getAQIStatus aqi =
     (if aqi \<le> 50 then (''GOOD'', ''#00E400'')
      else if aqi \<le> 100 then (''MODERATE'', ''#FFFF00'')
      else if aqi \<le> 150 then (''UNHEALTHY FOR SENSITIVE'', ''#FF7E00'')
      else if aqi \<le> 200 then (''UNHEALTHY'', ''#FF0000'')
      else if aqi \<le> 300 then (''VERY UNHEALTHY'', ''#8F3F97'')
      else (''HAZARDOUS'', ''#7E0023''))"

definition getDataSources :: "real \<Rightarrow> real \<Rightarrow> string list" where
  "getDataSources lat lon =
     (let isNorthAmerica = (20 \<le> lat \<and> lat \<le> 85 \<and> -170 \<le> lon \<and> lon \<le> -50) in
      if isNorthAmerica
      then [''NASA TEMPO'' @ [CHR 0x0A] @ ''NASA GEOS-CF'' @ [CHR 0x0A] @ ''NOAA GFS''
              @ [CHR 0x0A] @ ''AirNow, WAQI'']
      else [''NASA GEOS-CF'' @ [CHR 0x0A] @ ''NOAA GFS'' @ [CHR 0x0A]
              @ ''Open-Meteo Air Quality''])"

text \<open>\<open>getFallbackData\<close>: the object returned when the request fails.\<close>

definition getFallbackData :: "real \<Rightarrow> real \<Rightarrow> unifiedData" where
  "getFallbackData lat lon =
     \<lparr>location_city = ''Unknown'', latitude = lat, longitude = lon,
      unified_aqi = \<lparr>aqi_part_value = 50, category = ''Moderate'', aqi_dominant_pollutant = ''PM25'',
             health_message = ''Data temporarily unavailable'', confidence = 5 / 10,
             data_sources = None\<rparr>,
      unified_whyToday = \<lparr>whyToday_city = ''Unknown'', whyToday_aqi = 50, aqiStatus = ''MODERATE'',
             aqiColor = ''#FFFF00'', primaryPollutant = ''PM25'',
             healthAdvice = ''Please check back later'', whyToday_confidence = 5 / 10\<rparr>,
      raw = None, performance_mode = None\<rparr>"

text \<open>The object literal \<open>unifiedData\<close> of \<open>fetchLocationData\<close> and \<open>fetchLocationDataFast\<close>;
  the two differ in the member \<open>performance\<close> only.\<close>

definition unified_of :: "real \<Rightarrow> real \<Rightarrow> why_today_response \<Rightarrow> why_today_data \<Rightarrow> string option \<Rightarrow> unifiedData" where
  "unified_of lat lon apiData d mode =
     \<lparr>location_city = or_string (city_name d) (or_string (wt_location_city apiData) ''Unknown''),
      latitude = lat, longitude = lon,
      unified_aqi = \<lparr>aqi_part_value = aqi_value d,
             category = UnifiedAQIService_getAQICategory (aqi_value d),
             aqi_dominant_pollutant = primary_pollutant d,
             health_message = health_context d,
             confidence = or_number (confidence_score d) (95 / 100),
             data_sources = Some (getDataSources lat lon)\<rparr>,
      unified_whyToday = \<lparr>whyToday_city = or_string (city_name d) ''Unknown'',
             whyToday_aqi = aqi_value d,
             aqiStatus = fst (UnifiedAQIService_getAQIStatus (aqi_value d)),
             aqiColor = snd (UnifiedAQIService_getAQIStatus (aqi_value d)),
             primaryPollutant = or_string (Some (primary_pollutant d)) ''PM25'',
             healthAdvice = health_context d,
             whyToday_confidence = or_number (confidence_score d) (8 / 10)\<rparr>,
      raw = Some d, performance_mode = mode\<rparr>"

text \<open>The cache maps a key to the stored object and the time it was stored at. The key is
  \<open>lat.toFixed(4) + '_' + lon.toFixed(4)\<close>, a decimal formatting of floating-point
  numbers; the operations take the key function as the parameter \<open>getCacheKey\<close>.
  \<open>Date.now()\<close> is the parameter \<open>now\<close>, in milliseconds. The table of pending requests
  only shares the promise of a request already in flight and is left out: the
  operations are modelled one call at a time.\<close>

type_synonym 'k cache = "'k \<rightharpoonup> unifiedData \<times> int"

definition cacheTimeout :: int where
  "cacheTimeout = 10 * 60 * 1000"

definition isCacheValid :: "int \<Rightarrow> unifiedData \<times> int \<Rightarrow> bool" where
  "isCacheValid now cacheEntry = (now - snd cacheEntry < cacheTimeout)"

text \<open>\<open>fetchLocationData\<close>: the \<open>throw\<close> on an unsuccessful answer and every rejection end in
  the \<open>catch\<close> block, which returns the fallback object and stores nothing.\<close>

definition fetchLocationData ::
  "int \<Rightarrow> 'k cache \<Rightarrow> real \<Rightarrow> real \<Rightarrow> 'k \<Rightarrow> why_today_response fetched \<Rightarrow> unifiedData \<times> 'k cache" where
  "fetchLocationData now cache lat lon cacheKey response =
     (case response of
        Rejected \<Rightarrow> (getFallbackData lat lon, cache)
      | Resolved apiData \<Rightarrow>
          (case wt_data apiData of
             Some d \<Rightarrow>
               if wt_success apiData
               then let unified = unified_of lat lon apiData d None
                    in (unified, cache(cacheKey \<mapsto> (unified, now)))
               else (getFallbackData lat lon, cache)
           | None \<Rightarrow> (getFallbackData lat lon, cache)))"

text \<open>\<open>fetchLocationDataFast\<close>: its \<open>catch\<close> block calls \<open>fetchLocationData\<close>, which fetches
  again; \<open>retry\<close> is the outcome of that second request.\<close>

definition fetchLocationDataFast ::
  "int \<Rightarrow> 'k cache \<Rightarrow> real \<Rightarrow> real \<Rightarrow> 'k \<Rightarrow> why_today_response fetched \<Rightarrow> why_today_response fetched
     \<Rightarrow> unifiedData \<times> 'k cache" where
  "fetchLocationDataFast now cache lat lon cacheKey response retry =
     (case response of
        Rejected \<Rightarrow> fetchLocationData now cache lat lon cacheKey retry
      | Resolved apiData \<Rightarrow>
          (case wt_data apiData of
             Some d \<Rightarrow>
               if wt_success apiData
               then let unified = unified_of lat lon apiData d (Some ''fast_parallel'')
                    in (unified, cache(cacheKey \<mapsto> (unified, now)))
               else fetchLocationData now cache lat lon cacheKey retry
           | None \<Rightarrow> fetchLocationData now cache lat lon cacheKey retry))"

definition getLocationData ::
  "(real \<Rightarrow> real \<Rightarrow> 'k) \<Rightarrow> int \<Rightarrow> 'k cache \<Rightarrow> real \<Rightarrow> real \<Rightarrow> why_today_response fetched
     \<Rightarrow> unifiedData \<times> 'k cache" where
  "getLocationData getCacheKey now cache lat lon response =
     (let cacheKey = getCacheKey lat lon in
      case cache cacheKey of
        Some cachedData \<Rightarrow>
          if isCacheValid now cachedData then (fst cachedData, cache)
          else fetchLocationData now cache lat lon cacheKey response
      | None \<Rightarrow> fetchLocationData now cache lat lon cacheKey response)"

definition getLocationDataFast ::
  "(real \<Rightarrow> real \<Rightarrow> 'k) \<Rightarrow> int \<Rightarrow> 'k cache \<Rightarrow> real \<Rightarrow> real
     \<Rightarrow> why_today_response fetched \<Rightarrow> why_today_response fetched \<Rightarrow> unifiedData \<times> 'k cache" where
  "getLocationDataFast getCacheKey now cache lat lon response retry =
     (let cacheKey = getCacheKey lat lon in
      case cache cacheKey of
        Some cachedData \<Rightarrow>
          if isCacheValid now cachedData then (fst cachedData, cache)
          else fetchLocationDataFast now cache lat lon cacheKey response retry
      | None \<Rightarrow> fetchLocationDataFast now cache lat lon cacheKey response retry)"

text \<open>The wrapper \<open>AQIDataService\<close> around the unified service: \<open>getCurrentAQI\<close> copies the
  members of the unified object. Its \<open>catch\<close> block returns \<open>getFallbackAQIData\<close>; the
  unified service never rejects, so the block is not reached from \<open>getCurrentAQI\<close>.\<close>

record aqiData =
  aqiData_city :: string
  aqiData_current_aqi :: int
  aqiData_aqi_category :: string
  aqiData_dominant_pollutant :: string
  epa_message :: string
  aqiData_data_sources :: "string list option"
  aqiData_confidence :: real

definition getFallbackAQIData :: "real \<Rightarrow> real \<Rightarrow> aqiData" where
  "getFallbackAQIData lat lon =
     \<lparr>aqiData_city = ''Unknown'', aqiData_current_aqi = 50, aqiData_aqi_category = ''Moderate'',
      aqiData_dominant_pollutant = ''PM25'', epa_message = ''Data temporarily unavailable'',
      aqiData_data_sources = Some [''Fallback Data''], aqiData_confidence = 5 / 10\<rparr>"

definition getCurrentAQI ::
  "(real \<Rightarrow> real \<Rightarrow> 'k) \<Rightarrow> int \<Rightarrow> 'k cache \<Rightarrow> real \<Rightarrow> real
     \<Rightarrow> why_today_response fetched \<Rightarrow> why_today_response fetched \<Rightarrow> aqiData \<times> 'k cache" where
  "getCurrentAQI getCacheKey now cache lat lon response retry =
     (let (unified, cache') = getLocationDataFast getCacheKey now cache lat lon response retry in
      (\<lparr>aqiData_city = location_city unified,
        aqiData_current_aqi = aqi_part_value (unified_aqi unified),
        aqiData_aqi_category = category (unified_aqi unified),
        aqiData_dominant_pollutant = aqi_dominant_pollutant (unified_aqi unified),
        epa_message = health_message (unified_aqi unified),
        aqiData_data_sources = data_sources (unified_aqi unified),
        aqiData_confidence = confidence (unified_aqi unified)\<rparr>, cache'))"

text \<open>The request failed: it was rejected, or the answer is not \<open>success\<close> with \<open>data\<close>.\<close>

definition upstream_failed :: "why_today_response fetched \<Rightarrow> bool" where
  "upstream_failed response =
     (case response of Rejected \<Rightarrow> True
      | Resolved apiData \<Rightarrow> \<not> wt_success apiData \<or> wt_data apiData = None)"

text \<open>No valid entry for the key: the request goes to the network.\<close>

definition cache_miss :: "int \<Rightarrow> 'k cache \<Rightarrow> 'k \<Rightarrow> bool" where
  "cache_miss now cache cacheKey =
     (case cache cacheKey of None \<Rightarrow> True | Some cachedData \<Rightarrow> \<not> isCacheValid now cachedData)"

text \<open>A key function and an unsuccessful answer, for concrete evaluations.\<close>

definition sample_key :: "real \<Rightarrow> real \<Rightarrow> real \<times> real" where
  "sample_key lat lon = (lat, lon)"

definition unsuccessful_response :: why_today_response where
  "unsuccessful_response = \<lparr>wt_success = False, wt_data = None, wt_location_city = None\<rparr>"

section \<open>The forecast service\<close>

text \<open>An hourly record of the forecast answer, with the two members that the service reads;
  a member that is absent is \<open>None\<close>.\<close>

record hourly_record =
  hr_hour :: "int option"
  hr_aqi :: "int option"

text \<open>\<open>x || d\<close> on a number: absent and 0 are falsy.\<close>

definition or_int :: "int option \<Rightarrow> int \<Rightarrow> int" where
  "or_int x d = (case x of None \<Rightarrow> d | Some v \<Rightarrow> if v = 0 then d else v)"

text \<open>The entries of \<open>dailyMap\<close> in \<open>transformHourlyToDaily\<close>, and the objects of the returned
  array, which spread the entry and add the statistics. The formatted date and the constant
  \<open>weather\<close> member are left out; of the recommendation the title and the advice are kept.
  \<open>day_max\<close>, \<open>day_min\<close> and \<open>day_avg\<close> are \<open>None\<close> where JavaScript has
  \<open>-Infinity\<close>, \<open>Infinity\<close> and \<open>NaN\<close>, that is for an empty list of values.\<close>

record 'k day_entry =
  day :: int
  date :: 'k
  aqiValues :: "int list"
  hourlyCount :: nat

record 'k daily_forecast = "'k day_entry" +
  day_max :: "int option"
  day_min :: "int option"
  day_avg :: "int option"
  day_category :: string
  day_color :: string
  recommendation :: "string \<times> string"

text \<open>\<open>Math.min(...xs)\<close>, and \<open>Math.round\<close>, which rounds to the nearest integer and a
  half upwards. The quotient of two integers of this size is rounded by \<open>Math.round\<close> as
  the exact quotient is, so the argument is a real number.\<close>

fun Math_min :: "int list \<Rightarrow> int option" where
  "Math_min [] = None"
| "Math_min (x # xs) = (case Math_min xs of None \<Rightarrow> Some x | Some m \<Rightarrow> Some (min x m))"

definition Math_round :: "real \<Rightarrow> int" where
  "Math_round x = \<lfloor>x + 1 / 2\<rfloor>"

text \<open>\<open>ForecastService.getAQIColor\<close> and \<open>getDayRecommendation\<close>.\<close>

definition ForecastService_getAQIColor :: "int \<Rightarrow> string" where
  "ForecastService_getAQIColor aqi =
     (if aqi \<le> 50 then ''#00E400''
      else if aqi \<le> 100 then ''#FFFF00''
      else if aqi \<le> 150 then ''#FF7E00''
      else if aqi \<le> 200 then ''#FF0000''
      else if aqi \<le> 300 then ''#8F3F97''
      else ''#7E0023'')"

definition getDayRecommendation :: "int \<Rightarrow> string \<times> string" where
  "getDayRecommendation maxAqi =
     (if maxAqi \<le> 50 then (''Perfect Day'', ''Great for all outdoor activities!'')
      else if maxAqi \<le> 100 then (''Good Day'', ''Enjoy outdoor activities with caution'')
      else if maxAqi \<le> 150
        then (''Sensitive Alert'', ''Sensitive individuals should limit outdoor time'')
      else if maxAqi \<le> 200
        then (''Caution Advised'', ''Everyone should reduce outdoor activities'')
      else (''Stay Inside'', ''Avoid all outdoor activities''))"

text \<open>
  The date key of a record is \<open>date.toISOString().split('T')[0]\<close>, where \<open>date\<close> is
  \<open>new Date()\<close> moved by \<open>dayIndex\<close> days with \<open>setDate\<close>. It depends on the clock, read
  anew for every record, and on the time zone (\<open>setDate\<close> works in local time,
  \<open>toISOString\<close> in UTC), and \<open>toISOString\<close> throws a \<open>RangeError\<close> when the moved date
  is outside the range of \<open>Date\<close>. The computation is the parameter \<open>dateKeyOf\<close>:
  \<open>dateKeyOf i n\<close> is the key computed for the record at position \<open>i\<close> of the array with
  day index \<open>n\<close>, and \<open>None\<close> where \<open>toISOString\<close> throws. Nothing is assumed of it.
\<close>

text \<open>
  The part of the body of \<open>hourlyData.forEach\<close> that follows the computation of the key.
  The \<open>Map\<close> is an association list in insertion order: \<open>set\<close> on a new key appends, and
  the entry of an existing key is changed in place.
\<close>

definition add_to_day :: "'k \<Rightarrow> int \<Rightarrow> hourly_record \<Rightarrow> ('k \<times> 'k day_entry) list
    \<Rightarrow> ('k \<times> 'k day_entry) list" where
  "add_to_day dateKey dayIndex hour dailyMap =
     (let dailyMap1 =
            (if map_of dailyMap dateKey = None
             then AList.update dateKey
                    \<lparr>day = dayIndex, date = dateKey, aqiValues = [], hourlyCount = 0\<rparr> dailyMap
             else dailyMap)
      in AList.map_entry dateKey
           (\<lambda>dayData. dayData\<lparr>aqiValues := aqiValues dayData @ [or_int (hr_aqi hour) 50],
                               hourlyCount := hourlyCount dayData + 1\<rparr>)
           dailyMap1)"

text \<open>
  The body of \<open>hourlyData.forEach\<close> for the record at position \<open>i\<close>, and the loop. The
  result is \<open>None\<close> when \<open>toISOString\<close> throws; the exception ends the loop.
\<close>

definition forEach_hour :: "(nat \<Rightarrow> int \<Rightarrow> 'k option) \<Rightarrow> nat \<Rightarrow> ('k \<times> 'k day_entry) list
    \<Rightarrow> hourly_record \<Rightarrow> ('k \<times> 'k day_entry) list option" where
  "forEach_hour dateKeyOf i dailyMap hour =
     (let hourNum = or_int (hr_hour hour) 0;
          dayIndex = hourNum div 24
      in case dateKeyOf i dayIndex of
           None \<Rightarrow> None
         | Some dateKey \<Rightarrow> Some (add_to_day dateKey dayIndex hour dailyMap))"

fun forEach :: "(nat \<Rightarrow> int \<Rightarrow> 'k option) \<Rightarrow> nat \<Rightarrow> ('k \<times> 'k day_entry) list
    \<Rightarrow> hourly_record list \<Rightarrow> ('k \<times> 'k day_entry) list option" where
  "forEach dateKeyOf i dailyMap [] = Some dailyMap"
| "forEach dateKeyOf i dailyMap (hour # rest) =
     (case forEach_hour dateKeyOf i dailyMap hour of
        None \<Rightarrow> None
      | Some dailyMap' \<Rightarrow> forEach dateKeyOf (Suc i) dailyMap' rest)"

text \<open>The function mapped over \<open>dailyMap.values()\<close>. A comparison with \<open>NaN\<close> is false, so
  \<open>NaN\<close> falls through to the last label; \<open>-Infinity\<close> is below every bound.\<close>

definition daily_of :: "'k day_entry \<Rightarrow> 'k daily_forecast" where
  "daily_of d =
     (let maxAqi = Math_max (aqiValues d);
          minAqi = Math_min (aqiValues d);
          avgAqi = (if length (aqiValues d) = 0 then None
                    else Some (Math_round (of_int (fold (\<lambda>b a. a + b) (aqiValues d) 0)
                                  / of_int (int (length (aqiValues d))))))
      in day_entry.extend d
           \<lparr>day_max = maxAqi, day_min = minAqi, day_avg = avgAqi,
            day_category = (case avgAqi of Some a \<Rightarrow> ForecastService_getAQICategory a
                            | None \<Rightarrow> ''Hazardous''),
            day_color = (case avgAqi of Some a \<Rightarrow> ForecastService_getAQIColor a
                         | None \<Rightarrow> ''#7E0023''),
            recommendation = (case maxAqi of Some m \<Rightarrow> getDayRecommendation m
                              | None \<Rightarrow> (''Perfect Day'', ''Great for all outdoor activities!''))\<rparr>)"

text \<open>
  \<open>ForecastService.transformHourlyToDaily\<close>; \<open>None\<close> when it throws.
\<close>

definition transformHourlyToDaily ::
  "(nat \<Rightarrow> int \<Rightarrow> 'k option) \<Rightarrow> hourly_record list \<Rightarrow> 'k daily_forecast list option" where
  "transformHourlyToDaily dateKeyOf hourlyData =
     (if length hourlyData = 0 then Some []
      else map_option (map (daily_of \<circ> snd)) (forEach dateKeyOf 0 [] hourlyData))"

text \<open>The answers of the two forecast end points, and the object the service returns.
  \<open>fc_success\<close> is false where the object has no member \<open>success\<close>; the other members
  are \<open>None\<close> where absent.\<close>

record forecast_data =
  fd_hourly :: "hourly_record list option"

record forecast_response =
  fr_success :: bool
  fr_data :: "forecast_data option"

record five_day_entry =
  fde_aqi :: int
  fde_category :: string

record five_day_response =
  fdr_success :: bool
  fdr_forecast :: "five_day_entry list option"

record formatted_day =
  fmt_value :: int
  fmt_category :: string
  fmt_color :: string

record forecast_summary =
  totalHours :: nat
  totalDays :: nat
  dataQuality :: string

record 'k forecast =
  fc_success :: bool
  fc_hourly :: "hourly_record list option"
  fc_daily :: "'k daily_forecast list option"
  fc_days :: "formatted_day list option"
  fc_summary :: "forecast_summary option"

text \<open>\<open>formatNewForecast\<close>, on the array \<open>data.forecast\<close>.\<close>

definition formatNewForecast :: "five_day_entry list \<Rightarrow> 'k forecast" where
  "formatNewForecast forecast_days =
     \<lparr>fc_success = True, fc_hourly = None, fc_daily = None,
      fc_days = Some (map (\<lambda>d. \<lparr>fmt_value = fde_aqi d, fmt_category = fde_category d,
                                 fmt_color = ForecastService_getAQIColor (fde_aqi d)\<rparr>)
                        forecast_days),
      fc_summary = None\<rparr>"

text \<open>
  \<open>getFallbackForecast\<close>: five days of constant values. \<open>keyOf i\<close> is the date key that
  the loop computes for day \<open>i\<close>, \<open>None\<close> where \<open>toISOString\<close> throws; the result is then
  \<open>None\<close>, for the exception. The fallback days have no member \<open>aqiValues\<close>; it is the
  empty list here.
\<close>

definition getFallbackForecast :: "(int \<Rightarrow> 'k option) \<Rightarrow> 'k forecast option" where
  "getFallbackForecast keyOf =
     (case those (map (\<lambda>i. map_option
                     (\<lambda>k. \<lparr>day = i, date = k, aqiValues = [], hourlyCount = 24,
                           day_max = Some 50, day_min = Some 30, day_avg = Some 40,
                           day_category = ''Good'', day_color = ''#00E400'',
                           recommendation = (''Loading...'', ''Forecast data is loading'')\<rparr>)
                     (keyOf i))
                 [0, 1, 2, 3, 4]) of
        None \<Rightarrow> None
      | Some fallbackDays \<Rightarrow>
          Some \<lparr>fc_success = False, fc_hourly = Some [], fc_daily = Some fallbackDays,
                fc_days = None,
                fc_summary = Some \<lparr>totalHours = 0, totalDays = 5, dataQuality = ''loading''\<rparr>\<rparr>)"

text \<open>
  \<open>getForecastByLocation\<close>: \<open>response\<close> is the outcome of the request to
  \<open>/api/location/forecast\<close> and \<open>fallbackResponse\<close> that of the request to the \<open>/5day\<close>
  end point, made when the first answer is not successful. The whole body is in a \<open>try\<close>
  block: a rejected request and an exception of \<open>transformHourlyToDaily\<close> both end in the
  \<open>catch\<close> block, which returns \<open>getFallbackForecast()\<close>. \<open>fallbackKeyOf c\<close> gives the
  date keys of the call number \<open>c\<close> of \<open>getFallbackForecast\<close> in the operation; when the
  call in the \<open>try\<close> block throws, the \<open>catch\<close> block calls again. The result is \<open>None\<close>
  when the promise is rejected, that is when the call in the \<open>catch\<close> block throws.
\<close>

definition getForecastByLocation ::
  "(nat \<Rightarrow> int \<Rightarrow> 'k option) \<Rightarrow> (nat \<Rightarrow> int \<Rightarrow> 'k option) \<Rightarrow> forecast_response fetched
     \<Rightarrow> five_day_response fetched \<Rightarrow> 'k forecast option" where
  "getForecastByLocation dateKeyOf fallbackKeyOf response fallbackResponse =
     (let in_catch = getFallbackForecast (fallbackKeyOf 0);
          in_try = (case getFallbackForecast (fallbackKeyOf 0) of
                      Some fallback \<Rightarrow> Some fallback
                    | None \<Rightarrow> getFallbackForecast (fallbackKeyOf 1))
      in case response of
           Rejected \<Rightarrow> in_catch
         | Resolved data \<Rightarrow>
             (case (if fr_success data then fr_data data else None) of
                Some inner \<Rightarrow>
                  let hourlyData = (case fd_hourly inner of Some hs \<Rightarrow> hs | None \<Rightarrow> [])
                  in (case transformHourlyToDaily dateKeyOf hourlyData of
                        None \<Rightarrow> in_catch
                      | Some daily \<Rightarrow>
                          Some \<lparr>fc_success = True, fc_hourly = Some hourlyData,
                                fc_daily = Some daily, fc_days = None,
                                fc_summary = Some \<lparr>totalHours = length hourlyData,
                                                    totalDays = 5,
                                                    dataQuality = ''excellent''\<rparr>\<rparr>)
              | None \<Rightarrow>
                  (case fallbackResponse of
                     Rejected \<Rightarrow> in_catch
                   | Resolved fallbackData \<Rightarrow>
                       (case (if fdr_success fallbackData then fdr_forecast fallbackData
                              else None) of
                          Some forecast_days \<Rightarrow> Some (formatNewForecast forecast_days)
                        | None \<Rightarrow> in_try))))"

text \<open>A successful answer carrying the given hourly records.\<close>

definition hourly_answer :: "hourly_record list \<Rightarrow> forecast_response fetched" where
  "hourly_answer hourlyData =
     Resolved \<lparr>fr_success = True, fr_data = Some \<lparr>fd_hourly = Some hourlyData\<rparr>\<rparr>"

text \<open>
  Date keys for concrete evaluations, with the number of days from today as the key.
  \<open>plain_keys\<close>: every date is in range and every day gives another key. \<open>dst_keys\<close>: a
  clock at 00:30 local time on the day before summer time begins in a zone that is on
  UTC in winter (Europe/London, 28 March 2026): from two days on, 00:30 local time is
  23:30 UTC of the day before, so one and two days from today give the same key.
\<close>

definition plain_keys :: "nat \<Rightarrow> int \<Rightarrow> int option" where
  "plain_keys i n = Some n"

definition dst_keys :: "nat \<Rightarrow> int \<Rightarrow> int option" where
  "dst_keys i n = Some (if n \<le> 1 then n else n - 1)"

text \<open>
  Answers for concrete evaluations: two records of hour 0 and hour 1 with the AQI values
  0 and 40; one record for each of six days, the last at hour 120; and two records one
  and two days ahead.
\<close>

definition zero_aqi_hourly :: "hourly_record list" where
  "zero_aqi_hourly = [\<lparr>hr_hour = Some 0, hr_aqi = Some 0\<rparr>, \<lparr>hr_hour = Some 1, hr_aqi = Some 40\<rparr>]"

definition six_day_hourly :: "hourly_record list" where
  "six_day_hourly =
     [\<lparr>hr_hour = Some 0, hr_aqi = Some 40\<rparr>, \<lparr>hr_hour = Some 24, hr_aqi = Some 41\<rparr>,
      \<lparr>hr_hour = Some 48, hr_aqi = Some 42\<rparr>, \<lparr>hr_hour = Some 72, hr_aqi = Some 43\<rparr>,
      \<lparr>hr_hour = Some 96, hr_aqi = Some 44\<rparr>, \<lparr>hr_hour = Some 120, hr_aqi = Some 45\<rparr>]"

definition two_day_hourly :: "hourly_record list" where
  "two_day_hourly = [\<lparr>hr_hour = Some 24, hr_aqi = Some 30\<rparr>, \<lparr>hr_hour = Some 48, hr_aqi = Some 90\<rparr>]"

section \<open>Fusion weights, from the specification\<close>

text \<open>
  Modelled from the spec: the sources of the Fusion Engine. The fusion code is part of
  the Python back end and is not among the sources; the front end only shows the
  formula \<open>fused_value = sum (corrected_values[source] * normalized_weights[source])\<close>.
  The four kinds of source are those the specification lists with example base weights.
\<close>

datatype source_id = ground_network | international_network | satellite_column | model_forecast

text \<open>
  Modelled from the spec: the failure of \<open>Fuse\<close> when \<open>readings\<close> is empty
  (\<open>InsufficientSources\<close>); the function itself is missing from the sources.
\<close>

datatype fusion_error = InsufficientSources

text \<open>
  Modelled from the spec: the weight renormalisation of \<open>Fuse\<close>, missing from the
  sources. "Each source has a base weight; only sources present in readings participate;
  weights are renormalized to sum to 1 over the present subset": the weight of a present
  source is its base weight divided by the sum of the base weights of the present
  sources. The base weights are configuration, the parameter \<open>base_weight\<close>. The
  arithmetic is that of the real numbers; rounding of floating-point numbers is not part
  of the model.
\<close>

definition renormalized_weights ::
  "('s \<Rightarrow> real) \<Rightarrow> 's list \<Rightarrow> fusion_error + ('s \<times> real) list" where
  "renormalized_weights base_weight present =
     (if present = [] then Inl InsufficientSources
      else Inr (map (\<lambda>s. (s, base_weight s / sum_list (map base_weight present))) present))"

text \<open>
  Modelled from the spec: the example base weights of the specification (dense ground
  network 0.5, international network 0.3, satellite column 0.15, model forecast 0.05);
  the configured values are missing from the sources.
\<close>

definition example_base_weight :: "source_id \<Rightarrow> real" where
  "example_base_weight s =
     (case s of ground_network \<Rightarrow> 5 / 10 | international_network \<Rightarrow> 3 / 10
      | satellite_column \<Rightarrow> 15 / 100 | model_forecast \<Rightarrow> 5 / 100)"

section \<open>The alert evaluator, from the specification\<close>

text \<open>
  Modelled from the spec: the frequency policies of an alert rule. The Alert Evaluator
  is part of the Python back end and is missing from the sources; the set-up form stores
  the policy as one of the strings \<open>every_time\<close>, \<open>once_daily\<close>, \<open>category_change\<close>.
\<close>

datatype frequency_policy = every_time | once_daily | category_change

text \<open>
  Modelled from the spec: the severity categories of an alert, in rising order, named as
  the keys of \<open>categoryThresholds\<close> in the set-up form. The evaluator that compares them
  is missing from the sources.
\<close>

datatype aqi_severity =
  good | moderate | unhealthy_sensitive | unhealthy | very_unhealthy | hazardous

fun severity_rank :: "aqi_severity \<Rightarrow> nat" where
  "severity_rank good = 0"
| "severity_rank moderate = 1"
| "severity_rank unhealthy_sensitive = 2"
| "severity_rank unhealthy = 3"
| "severity_rank very_unhealthy = 4"
| "severity_rank hazardous = 5"

text \<open>
  \<open>categoryThresholds\<close> of the set-up form: the least and the greatest AQI of each
  category, and for each key the label that the category functions return.
\<close>

definition categoryThresholds :: "aqi_severity \<Rightarrow> int \<times> int" where
  "categoryThresholds c =
     (case c of good \<Rightarrow> (0, 50) | moderate \<Rightarrow> (51, 100) | unhealthy_sensitive \<Rightarrow> (101, 150)
      | unhealthy \<Rightarrow> (151, 200) | very_unhealthy \<Rightarrow> (201, 300) | hazardous \<Rightarrow> (301, 500))"

definition category_label :: "aqi_severity \<Rightarrow> string" where
  "category_label c =
     (case c of good \<Rightarrow> ''Good'' | moderate \<Rightarrow> ''Moderate''
      | unhealthy_sensitive \<Rightarrow> ''Unhealthy for Sensitive Groups''
      | unhealthy \<Rightarrow> ''Unhealthy'' | very_unhealthy \<Rightarrow> ''Very Unhealthy''
      | hazardous \<Rightarrow> ''Hazardous'')"

text \<open>
  Modelled from the spec: the part of \<open>AlertRule\<close> that the evaluator's policy decisions
  read, \<open>frequency_policy\<close> and \<open>quiet_hours (start, end, enabled)\<close>; the evaluator is missing
  from the sources. The times of day are minutes after midnight; the form's defaults
  22:00 and 07:00 are 1320 and 420.
\<close>

record quiet_window =
  qh_start :: nat
  qh_end :: nat
  qh_enabled :: bool

record alert_rule =
  rule_frequency_policy :: frequency_policy
  rule_quiet_hours :: quiet_window

text \<open>
  Modelled from the spec: \<open>AlertState\<close>, kept per rule and location by the evaluator, which
  is missing from the sources. Times are seconds. The specification names no value of
  \<open>last_sent_at\<close> for a rule that has not sent yet, so the field is a time.
\<close>

record AlertState =
  last_sent_at :: int
  last_sent_category :: "aqi_severity option"
  last_evaluated_aqi :: "int option"

text \<open>
  Modelled from the spec: the states of the evaluator's state machine, the evaluation of
  one snapshot or forecast point, and the notification intent, all missing from the
  sources. An evaluation carries the time, the local time of day in minutes, the AQI
  with its category, and whether the rule's threshold is crossed.
\<close>

datatype machine_state = Quiet | Armed | Fired | Cooldown

record evaluation =
  ev_time :: int
  ev_local_minute :: nat
  ev_aqi :: int
  ev_category :: aqi_severity
  ev_crossed :: bool

record notification_intent =
  intent_aqi :: int
  intent_category :: aqi_severity

text \<open>
  Modelled from the spec: whether the frequency policy permits a send; the evaluator is
  missing from the sources. "\<open>every_time\<close>: always permits. \<open>once_daily\<close>: permits only if
  \<open>last_sent_at\<close> is more than 24h ago for this rule and location. \<open>category_change\<close>:
  permits only if the current AQI category differs from \<open>last_sent_category\<close>."
\<close>

definition frequency_permits :: "frequency_policy \<Rightarrow> AlertState \<Rightarrow> evaluation \<Rightarrow> bool" where
  "frequency_permits policy st ev =
     (case policy of
        every_time \<Rightarrow> True
      | once_daily \<Rightarrow> ev_time ev - last_sent_at st > 24 * 3600
      | category_change \<Rightarrow> last_sent_category st \<noteq> Some (ev_category ev))"

text \<open>
  Modelled from the spec: the quiet-hours gate, missing from the sources. "If current
  local time falls within the quiet-hours window and alert severity is below
  hazardous / very unhealthy, suppress the send." A window whose start is after its end
  runs over midnight; the start belongs to the window and the end does not.
\<close>

definition in_quiet_hours :: "quiet_window \<Rightarrow> nat \<Rightarrow> bool" where
  "in_quiet_hours q m =
     (qh_enabled q \<and>
      (if qh_start q \<le> qh_end q then qh_start q \<le> m \<and> m < qh_end q
       else qh_start q \<le> m \<or> m < qh_end q))"

definition quiet_hours_suppress :: "quiet_window \<Rightarrow> evaluation \<Rightarrow> bool" where
  "quiet_hours_suppress q ev =
     (in_quiet_hours q (ev_local_minute ev) \<and>
      severity_rank (ev_category ev) < severity_rank very_unhealthy)"

text \<open>
  Modelled from the spec: the evaluation of the state \<open>Armed\<close>, missing from the sources.
  The machine goes to \<open>Fired\<close> when the threshold is crossed, the frequency policy permits
  a send and quiet hours do not suppress it; it then emits the intent and updates
  \<open>AlertState\<close>. Otherwise it stays \<open>Armed\<close> and emits nothing.
\<close>

definition evaluate_armed ::
  "alert_rule \<Rightarrow> AlertState \<Rightarrow> evaluation
     \<Rightarrow> machine_state \<times> notification_intent option \<times> AlertState" where
  "evaluate_armed rule st ev =
     (if ev_crossed ev \<and> frequency_permits (rule_frequency_policy rule) st ev \<and>
         \<not> quiet_hours_suppress (rule_quiet_hours rule) ev
      then (Fired, Some \<lparr>intent_aqi = ev_aqi ev, intent_category = ev_category ev\<rparr>,
            st\<lparr>last_sent_at := ev_time ev, last_sent_category := Some (ev_category ev),
               last_evaluated_aqi := Some (ev_aqi ev)\<rparr>)
      else (Armed, None, st\<lparr>last_evaluated_aqi := Some (ev_aqi ev)\<rparr>))"

text \<open>
  Modelled from the spec: the run of the machine over successive evaluations, missing
  from the sources. After \<open>Fired\<close> the machine is in \<open>Cooldown\<close> for the debounce
  interval (the parameter \<open>debounce\<close>, in seconds) and then \<open>Armed\<close> again; an evaluation
  that arrives during the cooldown is not evaluated. The specification does not say what
  takes a machine from \<open>Quiet\<close> to \<open>Armed\<close>; a machine in \<open>Quiet\<close> evaluates nothing.
\<close>

record evaluator =
  machine :: machine_state
  cooldown_until :: int
  alert_state :: AlertState

definition evaluator_step ::
  "int \<Rightarrow> alert_rule \<Rightarrow> evaluator \<Rightarrow> evaluation \<Rightarrow> evaluator \<times> notification_intent option" where
  "evaluator_step debounce rule s ev =
     (if machine s = Quiet \<or> (machine s = Cooldown \<and> ev_time ev < cooldown_until s)
      then (s, None)
      else
        (case evaluate_armed rule (alert_state s) ev of
           (Fired, intent, st') \<Rightarrow>
             (\<lparr>machine = Cooldown, cooldown_until = ev_time ev + debounce, alert_state = st'\<rparr>,
              intent)
         | (_, intent, st') \<Rightarrow>
             (\<lparr>machine = Armed, cooldown_until = cooldown_until s, alert_state = st'\<rparr>,
              intent)))"

fun emitted_intents ::
  "int \<Rightarrow> alert_rule \<Rightarrow> evaluator \<Rightarrow> evaluation list \<Rightarrow> notification_intent list" where
  "emitted_intents debounce rule s [] = []"
| "emitted_intents debounce rule s (ev # evs) =
     (case evaluator_step debounce rule s ev of
        (s', Some intent) \<Rightarrow> intent # emitted_intents debounce rule s' evs
      | (s', None) \<Rightarrow> emitted_intents debounce rule s' evs)"

text \<open>
  A rule with the policy \<open>once_daily\<close> and the quiet hours of the form's defaults, a
  machine that is armed and last sent at time 0, and evaluations for concrete runs:
  a crossing at noon two days later, and crossings 3 and 25 hours after it.
\<close>

definition sample_rule :: alert_rule where
  "sample_rule =
     \<lparr>rule_frequency_policy = once_daily,
      rule_quiet_hours = \<lparr>qh_start = 22 * 60, qh_end = 7 * 60, qh_enabled = True\<rparr>\<rparr>"

definition armed_evaluator :: evaluator where
  "armed_evaluator =
     \<lparr>machine = Armed, cooldown_until = 0,
      alert_state = \<lparr>last_sent_at = 0, last_sent_category = None, last_evaluated_aqi = None\<rparr>\<rparr>"

definition crossing_at :: "int \<Rightarrow> nat \<Rightarrow> aqi_severity \<Rightarrow> int \<Rightarrow> evaluation" where
  "crossing_at t m c a =
     \<lparr>ev_time = t, ev_local_minute = m, ev_aqi = a, ev_category = c, ev_crossed = True\<rparr>"

section \<open>Properties of the category functions\<close>

text \<open>
  C3. For every integer AQI value \<open>v\<close>, \<open>getAQIStatus\<close> returns Good exactly when
  \<open>v \<le> 50\<close>, Moderate exactly when \<open>50 < v \<le> 100\<close>, Unhealthy for Sensitive Groups
  exactly when \<open>100 < v \<le> 150\<close>, Unhealthy exactly when \<open>150 < v \<le> 200\<close>, Very Unhealthy
  exactly when \<open>200 < v \<le> 300\<close> and Hazardous exactly when \<open>300 < v\<close>; the value 112 is
  Unhealthy for Sensitive Groups. The statement holds for all integers, so in particular
  on the 0-500 scale.
\<close>

theorem getAQIStatus_bands:
  "(getAQIStatus v = ''Good'') = (v \<le> 50) \<and>
   (getAQIStatus v = ''Moderate'') = (50 < v \<and> v \<le> 100) \<and>
   (getAQIStatus v = ''Unhealthy for Sensitive Groups'') = (100 < v \<and> v \<le> 150) \<and>
   (getAQIStatus v = ''Unhealthy'') = (150 < v \<and> v \<le> 200) \<and>
   (getAQIStatus v = ''Very Unhealthy'') = (200 < v \<and> v \<le> 300) \<and>
   (getAQIStatus v = ''Hazardous'') = (300 < v) \<and>
   getAQIStatus 112 = ''Unhealthy for Sensitive Groups''"
  by (simp add: getAQIStatus_def)

text \<open>
  C8. The four independently written category functions agree on every AQI value.
\<close>

theorem category_functions_agree:
  "AQIDataService_getAQICategory v = getAQIStatus v \<and>
   UnifiedAQIService_getAQICategory v = getAQIStatus v \<and>
   ForecastService_getAQICategory v = getAQIStatus v"
  by (simp add: getAQIStatus_def AQIDataService_getAQICategory_def
      UnifiedAQIService_getAQICategory_def ForecastService_getAQICategory_def)

text \<open>
  On the scale from 0 to 500 the table \<open>categoryThresholds\<close> of the set-up form has the
  same bands: a value lies between the bounds of a key exactly when \<open>getAQIStatus\<close>
  returns the label of that key.
\<close>

lemma categoryThresholds_match_getAQIStatus:
  assumes "0 \<le> v" and "v \<le> 500"
  shows "(fst (categoryThresholds c) \<le> v \<and> v \<le> snd (categoryThresholds c))
       = (getAQIStatus v = category_label c)"
  using assms
  by (cases c) (auto simp: categoryThresholds_def category_label_def getAQIStatus_def)

section \<open>The pollutant filter of the alert form\<close>

lemma handlePollutantToggle_keeps_filter_ok:
  assumes "pollutant_filter_ok (pollutants s)"
  shows "pollutant_filter_ok (pollutants (handlePollutantToggle p s))"
proof (cases "p = ''all''")
  case True
  then show ?thesis
    by (simp add: handlePollutantToggle_def pollutant_filter_ok_def)
next
  case False
  note not_all = this
  show ?thesis
  proof (cases "''all'' \<in> set (pollutants s)")
    case True
    with not_all show ?thesis
      by (simp add: handlePollutantToggle_def pollutant_filter_ok_def)
  next
    case False
    then have "filter (\<lambda>q. q \<noteq> ''all'') (pollutants s) = pollutants s"
      by (induction "pollutants s") (auto simp: filter_id_conv)
    with False not_all show ?thesis
      by (auto simp: handlePollutantToggle_def pollutant_filter_ok_def Let_def)
  qed
qed

lemma fold_handlePollutantToggle_filter_ok:
  "pollutant_filter_ok (pollutants s) \<Longrightarrow>
   pollutant_filter_ok (pollutants (fold handlePollutantToggle ts s))"
proof (induction ts arbitrary: s)
  case Nil
  then show ?case by simp
next
  case (Cons t ts)
  from Cons.prems have "pollutant_filter_ok (pollutants (handlePollutantToggle t s))"
    by (rule handlePollutantToggle_keeps_filter_ok)
  then show ?case
    using Cons.IH by simp
qed

text \<open>
  C10. Starting from the initial selection \<open>[all]\<close>, after any sequence of
  \<open>handlePollutantToggle\<close> calls the pollutant filter is not empty, and if it contains
  \<open>all\<close> then \<open>all\<close> is its only element.
\<close>

theorem pollutant_filter_invariant:
  "pollutants (fold handlePollutantToggle ts initialAlertData) \<noteq> [] \<and>
   (''all'' \<in> set (pollutants (fold handlePollutantToggle ts initialAlertData)) \<longrightarrow>
      pollutants (fold handlePollutantToggle ts initialAlertData) = [''all''])"
proof -
  have "pollutant_filter_ok (pollutants initialAlertData)"
    by (simp add: initialAlertData_def pollutant_filter_ok_def)
  then have "pollutant_filter_ok (pollutants (fold handlePollutantToggle ts initialAlertData))"
    by (rule fold_handlePollutantToggle_filter_ok)
  then show ?thesis
    by (auto simp: pollutant_filter_ok_def)
qed

theorem pollutant_filter_invariant_witness:
  "pollutants (fold handlePollutantToggle [''PM25'', ''O3'', ''PM25'', ''O3''] initialAlertData)
     = [''all''] \<and>
   pollutants (fold handlePollutantToggle [''PM25'', ''O3'', ''all'', ''CO''] initialAlertData)
     = [''CO''] \<and>
   ''all'' \<in> set (pollutants
      (fold handlePollutantToggle [''PM25'', ''O3'', ''PM25'', ''O3''] initialAlertData))"
  using pollutant_filter_invariant [of "[''PM25'', ''O3'', ''PM25'', ''O3'']"]
  by (simp add: handlePollutantToggle_def initialAlertData_def)

section \<open>Overall AQI and dominant pollutant\<close>

lemma Math_max_Max: "xs \<noteq> [] \<Longrightarrow> Math_max xs = Some (Max (set xs))"
proof (induction xs)
  case Nil
  then show ?case by simp
next
  case (Cons x xs)
  show ?case
  proof (cases "xs = []")
    case True
    then show ?thesis by simp
  next
    case False
    with Cons.IH have "Math_max xs = Some (Max (set xs))" by simp
    with False show ?thesis by (simp add: max.commute)
  qed
qed

lemma find_first_key:
  assumes "distinct (map fst obj)" and "v \<in> snd ` set obj"
  shows "\<exists>i<length obj. find (\<lambda>key. map_of obj key = Some v) (map fst obj) = Some (fst (obj ! i))
     \<and> snd (obj ! i) = v \<and> (\<forall>j<i. snd (obj ! j) \<noteq> v)"
proof -
  let ?P = "\<lambda>key. map_of obj key = Some v"
  have key_val: "map_of obj (fst (obj ! j)) = Some (snd (obj ! j))" if "j < length obj" for j
    using assms(1) that by (metis map_of_is_SomeI nth_mem prod.collapse)
  from assms(2) obtain j where "j < length obj" "snd (obj ! j) = v"
    by (metis imageE in_set_conv_nth)
  then have "\<exists>i<length (map fst obj). ?P (map fst obj ! i)"
    using key_val by auto
  then have "find ?P (map fst obj) \<noteq> None"
    by (simp only: find_None_iff) (metis nth_mem)
  then obtain x where x: "find ?P (map fst obj) = Some x"
    by blast
  then obtain i where i: "i < length (map fst obj)" "?P (map fst obj ! i)"
     "x = map fst obj ! i" "\<forall>j<i. \<not> ?P (map fst obj ! j)"
    unfolding find_Some_iff by blast
  show ?thesis
  proof (intro exI conjI allI impI)
    show "i < length obj" using i(1) by simp
    show "find ?P (map fst obj) = Some (fst (obj ! i))" using i x by simp
    show "snd (obj ! i) = v" using i(1,2) key_val[of i] by simp
    show "snd (obj ! j) \<noteq> v" if "j < i" for j
      using i(1,4) that key_val[of j] by auto
  qed
qed

text \<open>
  For every non-empty object with distinct keys, the rest of \<open>generateDemoAQI\<close> returns
  the maximum of the values and names the first key, in the object's key order, whose
  value is that maximum.
\<close>

lemma generateDemoAQI_from_first_key:
  assumes "pollutants_obj \<noteq> []" and "distinct (Object_keys pollutants_obj)"
  shows "\<exists>r i. generateDemoAQI_from pollutants_obj = Some r \<and>
           demo_pollutants_of r = pollutants_obj \<and>
           current_aqi r = Max (set (Object_values pollutants_obj)) \<and>
           i < length pollutants_obj \<and>
           dominant_pollutant r = Some (toUpperCase (fst (pollutants_obj ! i))) \<and>
           snd (pollutants_obj ! i) = current_aqi r \<and>
           (\<forall>j<i. snd (pollutants_obj ! j) < current_aqi r)"
proof -
  let ?m = "Max (set (Object_values pollutants_obj))"
  have vals: "Object_values pollutants_obj \<noteq> []"
    using assms(1) by (simp add: Object_values_def)
  then have mm: "Math_max (Object_values pollutants_obj) = Some ?m"
    by (rule Math_max_Max)
  have "?m \<in> set (Object_values pollutants_obj)"
    using vals by (intro Max_in) simp_all
  then have "?m \<in> snd ` set pollutants_obj"
    by (simp add: Object_values_def)
  with assms(2) obtain i where i: "i < length pollutants_obj"
    "find (\<lambda>key. map_of pollutants_obj key = Some ?m) (map fst pollutants_obj)
       = Some (fst (pollutants_obj ! i))"
    "snd (pollutants_obj ! i) = ?m" "\<forall>j<i. snd (pollutants_obj ! j) \<noteq> ?m"
    unfolding Object_keys_def using find_first_key [of pollutants_obj ?m] by blast
  have below: "snd (pollutants_obj ! j) < ?m" if "j < i" for j
  proof -
    from that i(1) have "snd (pollutants_obj ! j) \<in> set (Object_values pollutants_obj)"
      by (simp add: Object_values_def)
    then have "snd (pollutants_obj ! j) \<le> ?m"
      by simp
    with i(4) that show ?thesis
      by (simp add: order_less_le)
  qed
  have "generateDemoAQI_from pollutants_obj =
      Some \<lparr>current_aqi = ?m, aqi_category = AQIDataService_getAQICategory ?m,
            dominant_pollutant = Some (toUpperCase (fst (pollutants_obj ! i))),
            demo_pollutants_of = pollutants_obj\<rparr>"
    using mm i(2) by (simp add: generateDemoAQI_from_def Object_keys_def Let_def)
  with i(1,3) below show ?thesis
    by auto
qed

text \<open>
  On the objects that \<open>generateDemoAQI\<close> builds, O3, SO2 and CO stay below PM2.5, so only
  PM2.5, PM10 and NO2 can tie, and on these the key order of the object and the EPA
  order name the same pollutant.
\<close>

lemma tie_orders_agree:
  fixes a b c e s k :: int
  assumes "c < a" "s < a" "k < a"
  defines "obj \<equiv> [(''pm25'', a), (''pm10'', b), (''o3'', c), (''no2'', e), (''so2'', s), (''co'', k)]"
  shows "map_option dominant_pollutant (generateDemoAQI_from obj)
       = Some (map_option toUpperCase (spec_dominant_pollutant obj))"
proof -
  define m where "m = max a (max b (max c (max e (max s k))))"
  have mm: "Math_max (Object_values obj) = Some m"
    by (simp add: obj_def Object_values_def m_def)
  have "a \<le> m" by (simp add: m_def)
  with assms(1-3) have ne: "c \<noteq> m" "s \<noteq> m" "k \<noteq> m" by auto
  have "m = a \<or> m = b \<or> m = e"
    using ne unfolding m_def by (auto simp: max_def split: if_splits)
  then show ?thesis
    unfolding generateDemoAQI_from_def spec_dominant_pollutant_def epa_priority_def mm
    using ne by (auto simp: obj_def Object_keys_def)
qed

lemma generateDemoAQI_matches_epa_order:
  assumes "valid_draws d"
  shows "map_option dominant_pollutant (generateDemoAQI d)
       = Some (map_option toUpperCase (spec_dominant_pollutant (demo_pollutants d)))"
proof -
  have "demo_pollutants d =
     [(''pm25'', max 15 (35 + r_base d + r_pm25 d - 4)),
       (''pm10'', max 20 (35 + r_base d + r_pm10 d - 3)),
       (''o3'', max 8 (r_o3 d + 8)),
       (''no2'', max 10 (35 + r_base d + r_no2 d - 4)),
       (''so2'', max 5 (r_so2 d + 5)),
       (''co'', max 8 (r_co d + 8))]"
    by (simp add: demo_pollutants_def Let_def)
  moreover have "max 8 (r_o3 d + 8) < max 15 (35 + r_base d + r_pm25 d - 4)"
    "max 5 (r_so2 d + 5) < max 15 (35 + r_base d + r_pm25 d - 4)"
    "max 8 (r_co d + 8) < max 15 (35 + r_base d + r_pm25 d - 4)"
    using assms by (auto simp: valid_draws_def)
  ultimately show ?thesis
    unfolding generateDemoAQI_def using tie_orders_agree by presburger
qed

text \<open>
  C1. For every map of sub-indices that \<open>generateDemoAQI\<close> builds (the function takes no
  map; it draws one, for any results of \<open>Math.random\<close>), the overall AQI is the maximum
  of the sub-indices, and the dominant pollutant is a pollutant achieving that maximum,
  the first such in the EPA priority order O3, PM2.5, PM10, CO, SO2, NO2.
\<close>

theorem generateDemoAQI_overall_and_dominant:
  assumes "valid_draws d"
  shows "\<exists>r i. generateDemoAQI d = Some r \<and>
           demo_pollutants_of r = demo_pollutants d \<and>
           current_aqi r = Max (set (Object_values (demo_pollutants d))) \<and>
           i < length epa_priority \<and>
           dominant_pollutant r = Some (toUpperCase (epa_priority ! i)) \<and>
           map_of (demo_pollutants d) (epa_priority ! i) = Some (current_aqi r) \<and>
           (\<forall>j<i. map_of (demo_pollutants d) (epa_priority ! j) \<noteq> Some (current_aqi r))"
proof -
  let ?obj = "demo_pollutants d"
  have ne: "?obj \<noteq> []" and dist: "distinct (Object_keys ?obj)"
    by (simp_all add: demo_pollutants_def Object_keys_def Let_def)
  from generateDemoAQI_from_first_key [OF ne dist] obtain r k where
    r: "generateDemoAQI d = Some r" "demo_pollutants_of r = ?obj"
       "current_aqi r = Max (set (Object_values ?obj))" and
    dom: "dominant_pollutant r = Some k"
    unfolding generateDemoAQI_def by blast
  have mm: "Math_max (Object_values ?obj) = Some (current_aqi r)"
    using ne r(3) by (simp add: Math_max_Max Object_values_def)
  from generateDemoAQI_matches_epa_order [OF assms] r(1)
  have "dominant_pollutant r = map_option toUpperCase (spec_dominant_pollutant ?obj)"
    by simp
  with dom obtain key where key: "spec_dominant_pollutant ?obj = Some key"
    "dominant_pollutant r = Some (toUpperCase key)"
    by (cases "spec_dominant_pollutant ?obj") auto
  from key(1) obtain i where i: "i < length epa_priority"
    "map_of ?obj (epa_priority ! i) = Some (current_aqi r)" "key = epa_priority ! i"
    "\<forall>j<i. map_of ?obj (epa_priority ! j) \<noteq> Some (current_aqi r)"
    unfolding spec_dominant_pollutant_def find_Some_iff mm by blast
  with r key(2) show ?thesis
    by blast
qed

theorem generateDemoAQI_overall_and_dominant_witness:
  "valid_draws tied_draws \<and>
   map_option demo_pollutants_of (generateDemoAQI tied_draws)
     = Some [(''pm25'', 40), (''pm10'', 40), (''o3'', 8), (''no2'', 40), (''so2'', 5), (''co'', 8)] \<and>
   map_option current_aqi (generateDemoAQI tied_draws) = Some 40 \<and>
   map_option dominant_pollutant (generateDemoAQI tied_draws) = Some (Some ''PM25'')"
  using generateDemoAQI_overall_and_dominant [of tied_draws]
  by (simp add: valid_draws_def tied_draws_def generateDemoAQI_def generateDemoAQI_from_def
      demo_pollutants_def Object_values_def Object_keys_def toUpperCase_def
      toUpperCase_char_def)

section \<open>Failed requests\<close>

lemma fetchLocationData_failed:
  "upstream_failed response \<Longrightarrow>
     fetchLocationData now cache lat lon k response = (getFallbackData lat lon, cache)"
  by (auto simp: upstream_failed_def fetchLocationData_def split: fetched.splits option.splits)

lemma fetchLocationDataFast_failed:
  "upstream_failed response \<Longrightarrow> upstream_failed retry \<Longrightarrow>
     fetchLocationDataFast now cache lat lon k response retry = (getFallbackData lat lon, cache)"
  by (auto simp: upstream_failed_def fetchLocationDataFast_def fetchLocationData_failed
      split: fetched.splits option.splits)

lemma getLocationData_failed:
  "upstream_failed response \<Longrightarrow> cache_miss now cache (getCacheKey lat lon) \<Longrightarrow>
     getLocationData getCacheKey now cache lat lon response = (getFallbackData lat lon, cache)"
  by (auto simp: getLocationData_def cache_miss_def fetchLocationData_failed Let_def
      split: option.splits)

lemma getLocationDataFast_failed:
  "upstream_failed response \<Longrightarrow> upstream_failed retry \<Longrightarrow>
   cache_miss now cache (getCacheKey lat lon) \<Longrightarrow>
     getLocationDataFast getCacheKey now cache lat lon response retry
       = (getFallbackData lat lon, cache)"
  by (auto simp: getLocationDataFast_def cache_miss_def fetchLocationDataFast_failed Let_def
      split: option.splits)

lemma unified_of_not_fallback: "unified_of lat' lon' apiData d mode \<noteq> getFallbackData lat lon"
  by (simp add: unified_of_def getFallbackData_def)

lemma unified_of_category:
  "category (unified_aqi (unified_of lat lon apiData d mode))
     = UnifiedAQIService_getAQICategory (aqi_part_value (unified_aqi (unified_of lat lon apiData d mode)))"
  by (simp add: unified_of_def)

lemma fetchLocationData_succeeded_category:
  assumes "\<not> upstream_failed response"
  shows "category (unified_aqi (fst (fetchLocationData now cache lat lon k response)))
     = UnifiedAQIService_getAQICategory
         (aqi_part_value (unified_aqi (fst (fetchLocationData now cache lat lon k response))))"
  using assms
  by (auto simp: upstream_failed_def fetchLocationData_def unified_of_category Let_def
      split: fetched.splits option.splits)

text \<open>
  C2, as the code has it. When the request fails (both requests, on the fast path) and
  the cache has no valid entry, the retrieval returns the fallback object and stores
  nothing. The fallback object carries the fixed AQI value 50, with the health message
  "Data temporarily unavailable", confidence 0.5 and no data sources, and it differs from
  every object built from a successful answer.
\<close>

theorem failed_upstream_returns_fallback:
  assumes "upstream_failed response" and "upstream_failed retry"
    and "cache_miss now cache (getCacheKey lat lon)"
  shows "getLocationData getCacheKey now cache lat lon response = (getFallbackData lat lon, cache) \<and>
    getLocationDataFast getCacheKey now cache lat lon response retry
      = (getFallbackData lat lon, cache) \<and>
    aqi_part_value (unified_aqi (getFallbackData lat lon)) = 50 \<and>
    health_message (unified_aqi (getFallbackData lat lon)) = ''Data temporarily unavailable'' \<and>
    confidence (unified_aqi (getFallbackData lat lon)) = 1 / 2 \<and>
    data_sources (unified_aqi (getFallbackData lat lon)) = None \<and>
    (\<forall>lat' lon' apiData d mode. unified_of lat' lon' apiData d mode \<noteq> getFallbackData lat lon)"
  using assms
  by (simp add: getLocationData_failed getLocationDataFast_failed unified_of_not_fallback)
    (simp add: getFallbackData_def)

theorem failed_upstream_returns_fallback_witness:
  "upstream_failed Rejected \<and> upstream_failed (Resolved unsuccessful_response) \<and>
   cache_miss 0 (Map.empty :: (real \<times> real) cache) (sample_key 40 (-74)) \<and>
   getLocationDataFast sample_key 0 Map.empty 40 (-74) Rejected (Resolved unsuccessful_response)
     = (getFallbackData 40 (-74), Map.empty)"
proof -
  have a: "upstream_failed Rejected"
    by (simp add: upstream_failed_def)
  have b: "upstream_failed (Resolved unsuccessful_response)"
    by (simp add: upstream_failed_def unsuccessful_response_def)
  have c: "cache_miss 0 (Map.empty :: (real \<times> real) cache) (sample_key 40 (-74))"
    by (simp add: cache_miss_def)
  from failed_upstream_returns_fallback
      [where getCacheKey = sample_key and lat = 40 and lon = "- 74", OF a b c] a b c
  show ?thesis
    by simp
qed

text \<open>
  The claim as stated fails: a rejected request yields the numeric AQI value 50, at any
  location, and the wrapper passes it on as \<open>current_aqi\<close>.
\<close>

theorem fallback_invents_aqi_counterexample:
  "upstream_failed Rejected \<and>
   aqi_part_value (unified_aqi (fst (getLocationData sample_key 0 Map.empty 40 (-74) Rejected))) = 50 \<and>
   aqi_part_value (unified_aqi (fst (getLocationData sample_key 0 Map.empty 51 0 Rejected))) = 50 \<and>
   aqiData_current_aqi (fst (getCurrentAQI sample_key 0 Map.empty 40 (-74) Rejected
      (Resolved unsuccessful_response))) = 50"
  by (simp add: upstream_failed_def getLocationData_def getLocationDataFast_def getCurrentAQI_def
      fetchLocationData_def fetchLocationDataFast_def getFallbackData_def unsuccessful_response_def)

text \<open>
  C9 at a failing request. The fallback objects carry the value 50 with the category
  Moderate, while \<open>getAQICategory\<close> of the same service maps 50 to Good. On the paths
  of a successful answer the category is \<open>getAQICategory\<close> of the value
  (\<open>fetchLocationData_succeeded_category\<close>).
\<close>

theorem fallback_category_mismatch:
  "category (unified_aqi (fst (getLocationData sample_key 0 Map.empty 40 (-74) Rejected)))
     = ''Moderate'' \<and>
   UnifiedAQIService_getAQICategory
     (aqi_part_value (unified_aqi (fst (getLocationData sample_key 0 Map.empty 40 (-74) Rejected))))
     = ''Good'' \<and>
   category (unified_aqi (fst (getLocationDataFast sample_key 0 Map.empty 40 (-74) Rejected
      (Resolved unsuccessful_response)))) = ''Moderate'' \<and>
   aqiData_aqi_category (fst (getCurrentAQI sample_key 0 Map.empty 40 (-74) Rejected Rejected))
     = ''Moderate'' \<and>
   AQIDataService_getAQICategory
     (aqiData_current_aqi (fst (getCurrentAQI sample_key 0 Map.empty 40 (-74) Rejected Rejected)))
     = ''Good'' \<and>
   aqiData_aqi_category (getFallbackAQIData 40 (-74)) = ''Moderate'' \<and>
   AQIDataService_getAQICategory (aqiData_current_aqi (getFallbackAQIData 40 (-74))) = ''Good''"
  by (simp add: getLocationData_def getLocationDataFast_def getCurrentAQI_def
      fetchLocationData_def fetchLocationDataFast_def getFallbackData_def unsuccessful_response_def
      getFallbackAQIData_def UnifiedAQIService_getAQICategory_def AQIDataService_getAQICategory_def)

section \<open>Daily aggregation of the forecast\<close>

lemma add_to_day_keys:
  "fst ` set (add_to_day k n h acc) = insert k (fst ` set acc)"
  by (auto simp: add_to_day_def Let_def AList.dom_map_entry AList.dom_update map_of_eq_None_iff)

lemma add_to_day_distinct:
  "distinct (map fst acc) \<Longrightarrow> distinct (map fst (add_to_day k n h acc))"
  by (simp add: add_to_day_def Let_def AList.distinct_map_entry AList.distinct_update)

lemma add_to_day_lookup:
  "map_of (add_to_day k n h acc) k' =
     (if k' = k
      then (case map_of acc k' of
              None \<Rightarrow> Some \<lparr>day = n, date = k',
                             aqiValues = [or_int (hr_aqi h) 50], hourlyCount = 1\<rparr>
            | Some d \<Rightarrow> Some (d\<lparr>aqiValues := aqiValues d @ [or_int (hr_aqi h) 50],
                                hourlyCount := hourlyCount d + 1\<rparr>))
      else map_of acc k')"
  by (auto simp: add_to_day_def Let_def AList.map_of_map_entry AList.update_conv'
      split: option.splits)

text \<open>
  Where the key of every record is defined and is a function \<open>key\<close> of the day index
  alone, the loop is a fold of \<open>add_to_day\<close>.
\<close>

lemma forEach_fold:
  assumes "\<forall>j<length hs. dk (i + j) (or_int (hr_hour (hs ! j)) 0 div 24)
             = Some (key (or_int (hr_hour (hs ! j)) 0 div 24))"
  shows "forEach dk i acc hs =
     Some (foldl (\<lambda>m h. add_to_day (key (or_int (hr_hour h) 0 div 24))
                           (or_int (hr_hour h) 0 div 24) h m) acc hs)"
  using assms
proof (induction hs arbitrary: i acc)
  case Nil
  then show ?case by simp
next
  case (Cons h hs)
  from Cons.prems have first: "dk i (or_int (hr_hour h) 0 div 24)
      = Some (key (or_int (hr_hour h) 0 div 24))"
    by (auto dest: spec [of _ 0])
  have rest: "\<forall>j<length hs. dk (Suc i + j) (or_int (hr_hour (hs ! j)) 0 div 24)
             = Some (key (or_int (hr_hour (hs ! j)) 0 div 24))"
  proof (intro allI impI)
    fix j assume "j < length hs"
    with Cons.prems have "dk (i + Suc j) (or_int (hr_hour ((h # hs) ! Suc j)) 0 div 24)
        = Some (key (or_int (hr_hour ((h # hs) ! Suc j)) 0 div 24))"
      by (auto dest: spec [of _ "Suc j"])
    then show "dk (Suc i + j) (or_int (hr_hour (hs ! j)) 0 div 24)
        = Some (key (or_int (hr_hour (hs ! j)) 0 div 24))"
      by simp
  qed
  show ?case
    by (simp add: forEach_hour_def first Let_def Cons.IH [OF rest])
qed

lemma foldl_add_to_day_keys:
  "fst ` set (foldl (\<lambda>m h. add_to_day (key (or_int (hr_hour h) 0 div 24))
                              (or_int (hr_hour h) 0 div 24) h m) [] hs)
     = (\<lambda>h. key (or_int (hr_hour h) 0 div 24)) ` set hs"
  by (induction hs rule: rev_induct) (auto simp: add_to_day_keys)

lemma foldl_add_to_day_distinct:
  "distinct (map fst (foldl (\<lambda>m h. add_to_day (key (or_int (hr_hour h) 0 div 24))
                              (or_int (hr_hour h) 0 div 24) h m) [] hs))"
  by (induction hs rule: rev_induct) (auto simp: add_to_day_distinct)

lemma foldl_add_to_day_lookup:
  assumes "inj_on key D" and "(\<lambda>h. or_int (hr_hour h) 0 div 24) ` set hs \<subseteq> D" and "n \<in> D"
  shows "map_of (foldl (\<lambda>m h. add_to_day (key (or_int (hr_hour h) 0 div 24))
                              (or_int (hr_hour h) 0 div 24) h m) [] hs) (key n) =
     (if filter (\<lambda>h. or_int (hr_hour h) 0 div 24 = n) hs = [] then None
      else Some \<lparr>day = n, date = key n,
              aqiValues = map (\<lambda>h. or_int (hr_aqi h) 50)
                            (filter (\<lambda>h. or_int (hr_hour h) 0 div 24 = n) hs),
              hourlyCount = length (filter (\<lambda>h. or_int (hr_hour h) 0 div 24 = n) hs)\<rparr>)"
  using assms(2,3)
proof (induction hs arbitrary: n rule: rev_induct)
  case Nil
  then show ?case by simp
next
  case (snoc h hs)
  from snoc.prems have sub: "(\<lambda>h. or_int (hr_hour h) 0 div 24) ` set hs \<subseteq> D"
    and inD: "or_int (hr_hour h) 0 div 24 \<in> D"
    by auto
  have eq: "key n = key (or_int (hr_hour h) 0 div 24) \<longleftrightarrow> n = or_int (hr_hour h) 0 div 24"
    using assms(1) inD snoc.prems(2) by (auto dest: inj_onD)
  show ?case
    using snoc.IH [OF sub] snoc.prems(2) inD
    by (simp add: add_to_day_lookup eq)
qed

lemma Math_min_Min: "xs \<noteq> [] \<Longrightarrow> Math_min xs = Some (Min (set xs))"
proof (induction xs)
  case Nil
  then show ?case by simp
next
  case (Cons x xs)
  show ?case
  proof (cases "xs = []")
    case True
    then show ?thesis by simp
  next
    case False
    with Cons.IH have "Math_min xs = Some (Min (set xs))" by simp
    with False show ?thesis by (simp add: min.commute)
  qed
qed

lemma fold_plus_sum_list: "fold (\<lambda>b a. a + b) xs (s :: int) = s + sum_list xs"
  by (induction xs arbitrary: s) auto

lemma daily_of_fields:
  assumes "aqiValues a \<noteq> []"
  shows "day (daily_of a) = day a" "aqiValues (daily_of a) = aqiValues a"
    "hourlyCount (daily_of a) = hourlyCount a"
    "day_max (daily_of a) = Some (Max (set (aqiValues a)))"
    "day_min (daily_of a) = Some (Min (set (aqiValues a)))"
    "day_avg (daily_of a) = Some \<lfloor>(of_int (sum_list (aqiValues a))
        / of_int (int (length (aqiValues a))) :: real) + 1 / 2\<rfloor>"
  using assms
  by (simp_all add: daily_of_def Let_def day_entry.extend_def Math_max_Max Math_min_Min
      fold_plus_sum_list Math_round_def)

text \<open>
  What the code does where the date keys behave: if the key of every record is defined
  and is an injective function of its day index, and every record carries an hour index
  and an AQI value other than 0, then the daily entries have distinct day numbers, which
  are exactly the values \<open>floor(h / 24)\<close> of the records' hour indices \<open>h\<close>, and each
  entry's values, count, maximum, minimum and rounded mean are those of exactly the
  records whose hour index gives its day number.
\<close>

lemma transformHourlyToDaily_groups_by_day:
  assumes keys: "\<forall>j<length hs. dateKeyOf j (hour_index (hs ! j) div 24)
                   = Some (key (hour_index (hs ! j) div 24))"
    and inj: "inj_on key ((\<lambda>h. hour_index h div 24) ` set hs)"
    and recs: "\<forall>h\<in>set hs. hr_hour h = Some (hour_index h) \<and> hr_aqi h = Some (reported h)
                 \<and> reported h \<noteq> 0"
  shows "\<exists>daily. transformHourlyToDaily dateKeyOf hs = Some daily \<and>
     distinct (map day daily) \<and>
     set (map day daily) = (\<lambda>h. hour_index h div 24) ` set hs \<and>
     (\<forall>d\<in>set daily.
        (let rs = filter (\<lambda>h. hour_index h div 24 = day d) hs in
         aqiValues d = map reported rs \<and> hourlyCount d = length rs \<and>
         day_max d = Some (Max (reported ` set rs)) \<and>
         day_min d = Some (Min (reported ` set rs)) \<and>
         day_avg d = Some \<lfloor>(of_int (sum_list (map reported rs))
                                / of_int (int (length rs)) :: real) + 1 / 2\<rfloor>))"
proof -
  let ?D = "(\<lambda>h. hour_index h div 24) ` set hs"
  let ?acc = "foldl (\<lambda>m h. add_to_day (key (or_int (hr_hour h) 0 div 24))
                              (or_int (hr_hour h) 0 div 24) h m) [] hs"
  let ?daily = "map (daily_of \<circ> snd) ?acc"
  have di: "or_int (hr_hour h) 0 div 24 = hour_index h div 24" if "h \<in> set hs" for h
    using recs that by (simp add: or_int_def)
  have va: "or_int (hr_aqi h) 50 = reported h" if "h \<in> set hs" for h
    using recs that by (simp add: or_int_def)
  have flt: "filter (\<lambda>h. or_int (hr_hour h) 0 div 24 = n) hs
      = filter (\<lambda>h. hour_index h div 24 = n) hs" for n
    using di by (intro filter_cong) simp_all
  have mp: "map (\<lambda>h. or_int (hr_aqi h) 50) (filter P hs) = map reported (filter P hs)" for P
    using va by (intro map_cong) simp_all
  have sub: "(\<lambda>h. or_int (hr_hour h) 0 div 24) ` set hs \<subseteq> ?D"
    using di by auto
  have "\<forall>j<length hs. dateKeyOf (0 + j) (or_int (hr_hour (hs ! j)) 0 div 24)
             = Some (key (or_int (hr_hour (hs ! j)) 0 div 24))"
    using keys di by simp
  then have loop: "forEach dateKeyOf 0 [] hs = Some ?acc"
    by (rule forEach_fold)
  have res: "transformHourlyToDaily dateKeyOf hs = Some ?daily"
    by (cases "hs = []") (simp_all add: transformHourlyToDaily_def loop)
  have entry: "\<exists>n\<in>?D. k = key n \<and> a = \<lparr>day = n, date = key n,
              aqiValues = map reported (filter (\<lambda>h. hour_index h div 24 = n) hs),
              hourlyCount = length (filter (\<lambda>h. hour_index h div 24 = n) hs)\<rparr> \<and>
              filter (\<lambda>h. hour_index h div 24 = n) hs \<noteq> []"
    if "(k, a) \<in> set ?acc" for k a
  proof -
    from that have look: "map_of ?acc k = Some a"
      using foldl_add_to_day_distinct [of key hs] by simp
    from that have "k \<in> fst ` set ?acc" by force
    then obtain h where h: "h \<in> set hs" "k = key (or_int (hr_hour h) 0 div 24)"
      unfolding foldl_add_to_day_keys by blast
    let ?n = "hour_index h div 24"
    have n: "?n \<in> ?D" using h(1) by blast
    have k: "k = key ?n" using h di by simp
    from foldl_add_to_day_lookup [OF inj sub n] look k
    have "filter (\<lambda>h. hour_index h div 24 = ?n) hs \<noteq> [] \<and>
       a = \<lparr>day = ?n, date = key ?n,
              aqiValues = map reported (filter (\<lambda>h. hour_index h div 24 = ?n) hs),
              hourlyCount = length (filter (\<lambda>h. hour_index h div 24 = ?n) hs)\<rparr>"
      unfolding flt mp by (auto split: if_splits)
    with n k show ?thesis by blast
  qed
  have day_daily: "day (daily_of a) = day a" for a :: "'a day_entry"
    by (simp add: daily_of_def Let_def day_entry.extend_def)
  define ys where "ys = map (day \<circ> snd) ?acc"
  have ysD: "set ys \<subseteq> ?D"
    using entry by (fastforce simp: ys_def)
  have keys': "map fst ?acc = map key ys"
    unfolding ys_def using entry by (fastforce intro!: map_cong)
  have "distinct (map key ys)"
    using foldl_add_to_day_distinct [of key hs] keys' by simp
  then have dys: "distinct ys"
    using distinct_map by blast
  have "key ` set ys = key ` ?D"
  proof -
    have "key ` set ys = fst ` set ?acc"
      using keys' by (metis image_set)
    also have "\<dots> = (\<lambda>h. key (or_int (hr_hour h) 0 div 24)) ` set hs"
      by (rule foldl_add_to_day_keys)
    also have "\<dots> = key ` ?D"
      using di by (auto simp: image_iff)
    finally show ?thesis .
  qed
  with inj ysD have sys: "set ys = ?D"
    using inj_on_image_eq_iff [of key ?D "set ys" ?D] by simp
  have dmap: "map day ?daily = ys"
    by (simp add: ys_def day_daily comp_def)
  have each: "(let rs = filter (\<lambda>h. hour_index h div 24 = day d) hs in
         aqiValues d = map reported rs \<and> hourlyCount d = length rs \<and>
         day_max d = Some (Max (reported ` set rs)) \<and>
         day_min d = Some (Min (reported ` set rs)) \<and>
         day_avg d = Some \<lfloor>(of_int (sum_list (map reported rs))
                                / of_int (int (length rs)) :: real) + 1 / 2\<rfloor>)"
    if "d \<in> set ?daily" for d
  proof -
    from that obtain k a where ka: "(k, a) \<in> set ?acc" "d = daily_of a"
      by auto
    from entry [OF ka(1)] obtain n where
      a: "a = \<lparr>day = n, date = key n,
              aqiValues = map reported (filter (\<lambda>h. hour_index h div 24 = n) hs),
              hourlyCount = length (filter (\<lambda>h. hour_index h div 24 = n) hs)\<rparr>" and
      ne: "filter (\<lambda>h. hour_index h div 24 = n) hs \<noteq> []"
      by blast
    have "aqiValues a \<noteq> []"
      using ne by (simp add: a)
    from daily_of_fields [OF this] show ?thesis
      unfolding ka(2) Let_def by (simp add: a)
  qed
  show ?thesis
  proof (intro exI [of _ ?daily] conjI ballI)
    show "transformHourlyToDaily dateKeyOf hs = Some ?daily"
      by (rule res)
    show "distinct (map day ?daily)"
      by (simp only: dmap dys)
    show "set (map day ?daily) = ?D"
      by (simp only: dmap sys)
  next
    fix d
    assume "d \<in> set ?daily"
    then show "(let rs = filter (\<lambda>h. hour_index h div 24 = day d) hs in
         aqiValues d = map reported rs \<and> hourlyCount d = length rs \<and>
         day_max d = Some (Max (reported ` set rs)) \<and>
         day_min d = Some (Min (reported ` set rs)) \<and>
         day_avg d = Some \<lfloor>(of_int (sum_list (map reported rs))
                                / of_int (int (length rs)) :: real) + 1 / 2\<rfloor>)"
      by (rule each)
  qed
qed

text \<open>
  The exception path: when the key of the first record cannot be computed, the forecast
  is what \<open>getFallbackForecast\<close> returns in the \<open>catch\<close> block. So is it when the request
  is rejected, with five days of the mean 40.
\<close>

lemma getForecastByLocation_date_out_of_range:
  assumes "dateKeyOf 0 (or_int (hr_hour h) 0 div 24) = None"
  shows "getForecastByLocation dateKeyOf fallbackKeyOf (hourly_answer (h # hs)) fallbackResponse
     = getFallbackForecast (fallbackKeyOf 0)"
  using assms
  by (simp add: getForecastByLocation_def hourly_answer_def transformHourlyToDaily_def
      forEach_hour_def Let_def)

lemma getForecastByLocation_rejected:
  "getForecastByLocation dateKeyOf (\<lambda>c. Some) Rejected fallbackResponse
     = getFallbackForecast Some \<and>
   map_option (\<lambda>f. map_option (map day_avg) (fc_daily f)) (getFallbackForecast Some)
     = Some (Some [Some 40, Some 40, Some 40, Some 40, Some 40])"
  by (simp add: getForecastByLocation_def getFallbackForecast_def)

text \<open>
  C7 at an answer with a record of the AQI value 0. The records of hour 0 and hour 1
  carry the values 0 and 40 and both belong to day 0; over these records the maximum is
  40, the minimum 0 and the mean 20. The forecast gives day 0 the values 50 and 40,
  hence the maximum 50, the minimum 40 and the mean 45: \<open>hour.aqi || 50\<close> replaces the
  value 0.
\<close>

theorem zero_aqi_counted_as_fifty:
  "map hr_hour zero_aqi_hourly = [Some 0, Some 1] \<and>
   map hr_aqi zero_aqi_hourly = [Some 0, Some 40] \<and>
   (\<exists>daily. getForecastByLocation plain_keys plain_keys (hourly_answer zero_aqi_hourly) Rejected =
      Some \<lparr>fc_success = True, fc_hourly = Some zero_aqi_hourly, fc_daily = Some daily,
            fc_days = None,
            fc_summary = Some \<lparr>totalHours = 2, totalDays = 5, dataQuality = ''excellent''\<rparr>\<rparr> \<and>
      map day daily = [0] \<and> map aqiValues daily = [[50, 40]] \<and>
      map day_max daily = [Some 50] \<and> map day_min daily = [Some 40] \<and>
      map day_avg daily = [Some 45])"
  by (simp add: getForecastByLocation_def hourly_answer_def zero_aqi_hourly_def plain_keys_def
      transformHourlyToDaily_def forEach_hour_def add_to_day_def or_int_def daily_of_def
      day_entry.extend_def Math_round_def Let_def)

text \<open>
  Two more evaluations. The service has no bound on the days: records up to hour 120
  give six daily entries beside \<open>totalDays\<close> 5. And where two day indices get the same
  date key, their records are merged under the day number of the first.
\<close>

lemma six_days_reported_as_five:
  "\<exists>daily. getForecastByLocation plain_keys plain_keys (hourly_answer six_day_hourly) Rejected =
      Some \<lparr>fc_success = True, fc_hourly = Some six_day_hourly, fc_daily = Some daily,
            fc_days = None,
            fc_summary = Some \<lparr>totalHours = 6, totalDays = 5, dataQuality = ''excellent''\<rparr>\<rparr> \<and>
      map day daily = [0, 1, 2, 3, 4, 5]"
  by (simp add: getForecastByLocation_def hourly_answer_def six_day_hourly_def plain_keys_def
      transformHourlyToDaily_def forEach_hour_def add_to_day_def or_int_def daily_of_def
      day_entry.extend_def Math_round_def Let_def)

lemma days_merged_on_equal_keys:
  "map_option (map day) (transformHourlyToDaily dst_keys two_day_hourly) = Some [1] \<and>
   map_option (map aqiValues) (transformHourlyToDaily dst_keys two_day_hourly) = Some [[30, 90]]"
  by (simp add: two_day_hourly_def dst_keys_def transformHourlyToDaily_def forEach_hour_def
      add_to_day_def or_int_def daily_of_def day_entry.extend_def Math_round_def Let_def)

section \<open>Fusion weights\<close>

lemma sum_list_divide: "sum_list (map (\<lambda>x. f x / (c::real)) xs) = sum_list (map f xs) / c"
  by (induction xs) (simp_all add: add_divide_distrib)

lemma sum_list_pos:
  "xs \<noteq> [] \<Longrightarrow> \<forall>x\<in>set xs. 0 < f x \<Longrightarrow> 0 < sum_list (map f xs :: real list)"
proof (induction xs)
  case Nil
  then show ?case by simp
next
  case (Cons a xs)
  show ?case
  proof (cases "xs = []")
    case True
    with Cons.prems show ?thesis by simp
  next
    case False
    with Cons have "0 < sum_list (map f xs)" by simp
    with Cons.prems show ?thesis by (simp add: add_pos_pos)
  qed
qed

text \<open>
  C4. For every non-empty list of present sources with positive base weights, the
  renormalised weights are defined, one per present source, and their sum is within
  \<open>1e-9\<close> of 1 (in real arithmetic it is 1).
\<close>

theorem renormalized_weights_sum_to_one:
  assumes "present \<noteq> []" and "\<forall>s\<in>set present. 0 < base_weight s"
  shows "\<exists>ws. renormalized_weights base_weight present = Inr ws \<and>
           map fst ws = present \<and> \<bar>sum_list (map snd ws) - 1\<bar> \<le> 1 / 10 ^ 9"
proof -
  have pos: "0 < sum_list (map base_weight present)"
    using assms by (rule sum_list_pos)
  have "sum_list (map (\<lambda>s. base_weight s / sum_list (map base_weight present)) present) = 1"
    using pos by (simp add: sum_list_divide)
  then show ?thesis
    using assms(1) by (simp add: renormalized_weights_def comp_def)
qed

theorem renormalized_weights_sum_to_one_witness:
  "renormalized_weights example_base_weight [ground_network, satellite_column]
     = Inr [(ground_network, 10 / 13), (satellite_column, 3 / 13)] \<and>
   (\<exists>ws. renormalized_weights example_base_weight [ground_network, satellite_column] = Inr ws \<and>
      \<bar>sum_list (map snd ws) - 1\<bar> \<le> 1 / 10 ^ 9)"
proof -
  have a: "[ground_network, satellite_column] \<noteq> []" by simp
  have b: "\<forall>s\<in>set [ground_network, satellite_column]. 0 < example_base_weight s"
    by (simp add: example_base_weight_def)
  have c: "renormalized_weights example_base_weight [ground_network, satellite_column]
     = Inr [(ground_network, 10 / 13), (satellite_column, 3 / 13)]"
    by (simp add: renormalized_weights_def example_base_weight_def)
  from renormalized_weights_sum_to_one [OF a b] c show ?thesis
    by blast
qed

section \<open>Alert policy\<close>

text \<open>
  C5. Under the policy \<open>once_daily\<close>, an evaluation produces a notification intent only
  if \<open>last_sent_at\<close> is more than 24 hours before it. For an armed machine whose last
  send is more than 24 hours before the first of two threshold crossings, neither
  suppressed by quiet hours: when the crossings are 3 hours apart exactly one intent is
  emitted, and when they are 25 hours apart (the debounce interval being at most 25
  hours) two are emitted.
\<close>

theorem once_daily_dedup:
  assumes "rule_frequency_policy rule = once_daily"
    and "machine s = Armed"
    and "ev_time ev1 - last_sent_at (alert_state s) > 24 * 3600"
    and "ev_crossed ev1" and "ev_crossed ev2"
    and "\<not> quiet_hours_suppress (rule_quiet_hours rule) ev1"
    and "\<not> quiet_hours_suppress (rule_quiet_hours rule) ev2"
    and "0 \<le> debounce"
  shows "(fst (snd (evaluate_armed rule st ev)) \<noteq> None \<longrightarrow>
            ev_time ev - last_sent_at st > 24 * 3600) \<and>
         (ev_time ev2 = ev_time ev1 + 3 * 3600 \<longrightarrow>
            length (emitted_intents debounce rule s [ev1, ev2]) = 1) \<and>
         (ev_time ev2 = ev_time ev1 + 25 * 3600 \<and> debounce \<le> 25 * 3600 \<longrightarrow>
            length (emitted_intents debounce rule s [ev1, ev2]) = 2)"
  using assms
  by (auto simp: evaluate_armed_def evaluator_step_def frequency_permits_def split: if_splits)

theorem once_daily_dedup_witness:
  "length (emitted_intents 300 sample_rule armed_evaluator
      [crossing_at 216000 720 unhealthy 160, crossing_at 226800 900 unhealthy 165]) = 1 \<and>
   length (emitted_intents 300 sample_rule armed_evaluator
      [crossing_at 216000 720 unhealthy 160, crossing_at 306000 780 unhealthy 165]) = 2"
  using
    once_daily_dedup [of sample_rule armed_evaluator "crossing_at 216000 720 unhealthy 160"
      "crossing_at 226800 900 unhealthy 165" 300]
    once_daily_dedup [of sample_rule armed_evaluator "crossing_at 216000 720 unhealthy 160"
      "crossing_at 306000 780 unhealthy 165" 300]
  by (simp add: sample_rule_def armed_evaluator_def crossing_at_def quiet_hours_suppress_def
      in_quiet_hours_def)

text \<open>
  C6. For an evaluation whose local time is within the rule's quiet-hours window: if the
  category is below very unhealthy, no intent is emitted and the machine stays
  \<open>Armed\<close>; if the category is hazardous, the threshold is crossed and the frequency
  policy permits, the machine goes to \<open>Fired\<close> and emits the intent.
\<close>

theorem quiet_hours_gating:
  assumes "in_quiet_hours (rule_quiet_hours rule) (ev_local_minute ev)"
  shows "(severity_rank (ev_category ev) < severity_rank very_unhealthy \<longrightarrow>
            evaluate_armed rule st ev
              = (Armed, None, st\<lparr>last_evaluated_aqi := Some (ev_aqi ev)\<rparr>)) \<and>
         (ev_category ev = hazardous \<and> ev_crossed ev \<and>
            frequency_permits (rule_frequency_policy rule) st ev \<longrightarrow>
            fst (evaluate_armed rule st ev) = Fired \<and>
            fst (snd (evaluate_armed rule st ev))
              = Some \<lparr>intent_aqi = ev_aqi ev, intent_category = hazardous\<rparr>)"
  using assms
  by (auto simp: evaluate_armed_def quiet_hours_suppress_def)

theorem quiet_hours_gating_witness:
  "in_quiet_hours (rule_quiet_hours sample_rule) 1380 \<and>
   fst (evaluate_armed sample_rule (alert_state armed_evaluator)
          (crossing_at 216000 1380 moderate 80)) = Armed \<and>
   fst (snd (evaluate_armed sample_rule (alert_state armed_evaluator)
          (crossing_at 216000 1380 moderate 80))) = None \<and>
   fst (evaluate_armed sample_rule (alert_state armed_evaluator)
          (crossing_at 216000 1380 hazardous 320)) = Fired \<and>
   fst (snd (evaluate_armed sample_rule (alert_state armed_evaluator)
          (crossing_at 216000 1380 hazardous 320)))
     = Some \<lparr>intent_aqi = 320, intent_category = hazardous\<rparr>"
  using
    quiet_hours_gating [of sample_rule "crossing_at 216000 1380 moderate 80"
      "alert_state armed_evaluator"]
    quiet_hours_gating [of sample_rule "crossing_at 216000 1380 hazardous 320"
      "alert_state armed_evaluator"]
  by (simp add: sample_rule_def armed_evaluator_def crossing_at_def in_quiet_hours_def
      frequency_permits_def)

end
